theory Spec2Isabelle
  imports Main "HOL-Library.Word"
begin

section \<open>JavaScript values reaching the contact endpoint\<close>

text \<open>
  A JavaScript string is a sequence of 16-bit code units. Source literals are ASCII and
  are written through \<open>lit\<close>.
\<close>

type_synonym code_unit = "16 word"
type_synonym jsstring = "code_unit list"

definition lit :: "string \<Rightarrow> jsstring" where
  "lit s = map of_char s"

text \<open>
  A Number that \<open>JSON.parse\<close> can produce is never NaN. A finite one is kept as the
  decimal that ECMAScript's \<open>Number::toString\<close> prints for it: the integer
  \<open>significand\<close> \<open>s\<close> with \<open>k\<close> digits and the position \<open>point\<close> \<open>n\<close>, standing for
  \<open>s * 10 ^ (n - k)\<close>; \<open>significand = 0\<close> is zero of either sign. Choosing \<open>s\<close> and
  \<open>n\<close> from the bits of a double is the engine's work and is not modelled.
\<close>

datatype jsnumber =
    Decimal (negative: bool) (significand: nat) (point: int)
  | Infinity (negative: bool)

datatype jsval =
    Undefined
  | Null
  | Bool bool
  | Num jsnumber
  | Str jsstring
  | Arr "jsval list"
  | Obj "(jsstring \<times> jsval) list"

datatype exn = SyntaxError | TypeError

text \<open>Truthiness (\<open>ToBoolean\<close>), as used by \<open>!data.email\<close> and by \<open>||\<close>.\<close>

fun ToBoolean :: "jsval \<Rightarrow> bool" where
  "ToBoolean Undefined = False"
| "ToBoolean Null = False"
| "ToBoolean (Bool b) = b"
| "ToBoolean (Num (Decimal neg s n)) = (s \<noteq> 0)"
| "ToBoolean (Num (Infinity neg)) = True"
| "ToBoolean (Str s) = (s \<noteq> [])"
| "ToBoolean (Arr xs) = True"
| "ToBoolean (Obj ps) = True"

definition js_or :: "jsval \<Rightarrow> jsval \<Rightarrow> jsval" where
  "js_or a b = (if ToBoolean a then a else b)"

text \<open>
  Reading a property \<open>v.name\<close> for a name that no built-in prototype defines and that is
  neither an index nor \<open>length\<close> (the handler reads \<open>email\<close> and \<open>message\<close>): on
  \<open>undefined\<close> and \<open>null\<close> it throws a TypeError, on an object parsed from JSON it is the
  own property (the first entry of the property list with that name), on anything else
  it is \<open>undefined\<close>.
\<close>

fun Get :: "jsval \<Rightarrow> jsstring \<Rightarrow> exn + jsval" where
  "Get Undefined name = Inl TypeError"
| "Get Null name = Inl TypeError"
| "Get (Obj ps) name = Inr (case map_of ps name of None \<Rightarrow> Undefined | Some v \<Rightarrow> v)"
| "Get v name = Inr Undefined"

fun digits :: "nat \<Rightarrow> jsstring" where
  "digits n = (if n < 10 then [of_nat (48 + n)]
               else digits (n div 10) @ [of_nat (48 + n mod 10)])"

declare digits.simps [simp del]

definition zeros :: "nat \<Rightarrow> jsstring" where
  "zeros n = replicate n 0x30"

fun Number_toString :: "jsnumber \<Rightarrow> jsstring" where
  "Number_toString (Infinity neg) = (if neg then lit ''-Infinity'' else lit ''Infinity'')"
| "Number_toString (Decimal neg s n) =
     (if s = 0 then lit ''0''
      else (if neg then lit ''-'' else []) @
        (let ds = digits s; k = int (length ds) in
         if - 5 \<le> n \<and> n \<le> 21 then
           (if k \<le> n then ds @ zeros (nat (n - k))
            else if 0 < n then take (nat n) ds @ lit ''.'' @ drop (nat n) ds
            else lit ''0.'' @ zeros (nat (- n)) @ ds)
         else
           (let e = n - 1;
                expo = lit ''e'' @ (if 0 \<le> e then lit ''+'' else lit ''-'') @ digits (nat \<bar>e\<bar>)
            in if k = 1 then ds @ expo
               else take 1 ds @ lit ''.'' @ drop 1 ds @ expo)))"

text \<open>
  \<open>ToString\<close>, which \<open>RegExp.prototype.test\<close> applies to its argument. An array is
  joined with commas, \<open>undefined\<close> and \<open>null\<close> elements giving the empty string. An
  object parsed from JSON has only data properties: without an own \<open>toString\<close> it prints
  as \<open>[object Object]\<close>; with one (never callable) the conversion falls through
  \<open>valueOf\<close> and throws a TypeError.
\<close>

fun ToString :: "jsval \<Rightarrow> exn + jsstring"
  and join :: "jsval list \<Rightarrow> exn + jsstring" where
  "ToString Undefined = Inr (lit ''undefined'')"
| "ToString Null = Inr (lit ''null'')"
| "ToString (Bool b) = Inr (if b then lit ''true'' else lit ''false'')"
| "ToString (Num x) = Inr (Number_toString x)"
| "ToString (Str s) = Inr s"
| "ToString (Arr xs) = join xs"
| "ToString (Obj ps) =
     (case map_of ps (lit ''toString'') of
        None \<Rightarrow> Inr (lit ''[object Object]'')
      | Some f \<Rightarrow> Inl TypeError)"
| "join [] = Inr []"
| "join (x # xs) =
     (case (if x = Undefined \<or> x = Null then Inr [] else ToString x) of
        Inl e \<Rightarrow> Inl e
      | Inr s \<Rightarrow>
          (if xs = [] then Inr s
           else (case join xs of
                   Inl e \<Rightarrow> Inl e
                 | Inr r \<Rightarrow> Inr (s @ lit '','' @ r))))"

section \<open>Regular expressions\<close>

text \<open>
  The pattern language of the endpoint's literal: a character, a negated class
  \<open>[^...]\<close> whose members are characters or the escape \<open>\s\<close>, concatenation and \<open>+\<close>;
  the remaining constructors are what derivatives of these need.
\<close>

datatype class_atom = ClassChar code_unit | ClassSpace

datatype regex =
    Fail
  | Empty
  | Char code_unit
  | NotOneOf "class_atom list"
  | Concat regex regex
  | Alt regex regex
  | Star regex
  | Plus regex

text \<open>\<open>\s\<close>: ECMAScript WhiteSpace and LineTerminator code units.\<close>

definition is_space :: "code_unit \<Rightarrow> bool" where
  "is_space c \<longleftrightarrow>
     c = 0x0009 \<or> c = 0x000A \<or> c = 0x000B \<or> c = 0x000C \<or> c = 0x000D \<or> c = 0x0020 \<or>
     c = 0x00A0 \<or> c = 0x1680 \<or> (0x2000 \<le> c \<and> c \<le> 0x200A) \<or> c = 0x2028 \<or>
     c = 0x2029 \<or> c = 0x202F \<or> c = 0x205F \<or> c = 0x3000 \<or> c = 0xFEFF"

fun atom_has :: "class_atom \<Rightarrow> code_unit \<Rightarrow> bool" where
  "atom_has (ClassChar d) c = (c = d)"
| "atom_has ClassSpace c = is_space c"

fun nullable :: "regex \<Rightarrow> bool" where
  "nullable Fail = False"
| "nullable Empty = True"
| "nullable (Char d) = False"
| "nullable (NotOneOf as) = False"
| "nullable (Concat r s) = (nullable r \<and> nullable s)"
| "nullable (Alt r s) = (nullable r \<or> nullable s)"
| "nullable (Star r) = True"
| "nullable (Plus r) = nullable r"

fun deriv :: "code_unit \<Rightarrow> regex \<Rightarrow> regex" where
  "deriv c Fail = Fail"
| "deriv c Empty = Fail"
| "deriv c (Char d) = (if c = d then Empty else Fail)"
| "deriv c (NotOneOf as) = (if list_ex (\<lambda>a. atom_has a c) as then Fail else Empty)"
| "deriv c (Concat r s) =
     (if nullable r then Alt (Concat (deriv c r) s) (deriv c s)
      else Concat (deriv c r) s)"
| "deriv c (Alt r s) = Alt (deriv c r) (deriv c s)"
| "deriv c (Star r) = Concat (deriv c r) (Star r)"
| "deriv c (Plus r) = Concat (deriv c r) (Star r)"

text \<open>
  \<open>^r$\<close> without flags: \<open>test\<close> succeeds exactly when the whole input is matched by \<open>r\<close>.
\<close>

fun anchored_test :: "regex \<Rightarrow> jsstring \<Rightarrow> bool" where
  "anchored_test r [] = nullable r"
| "anchored_test r (c # cs) = anchored_test (deriv c r) cs"

text \<open>The words a pattern stands for, to check the matcher against.\<close>

inductive_set star :: "jsstring set \<Rightarrow> jsstring set" for L :: "jsstring set" where
  star_nil: "[] \<in> star L"
| star_app: "u \<in> L \<Longrightarrow> v \<in> star L \<Longrightarrow> u @ v \<in> star L"

fun lang :: "regex \<Rightarrow> jsstring set" where
  "lang Fail = {}"
| "lang Empty = {[]}"
| "lang (Char d) = {[d]}"
| "lang (NotOneOf as) = {[c] | c. \<forall>a \<in> set as. \<not> atom_has a c}"
| "lang (Concat r s) = {u @ v | u v. u \<in> lang r \<and> v \<in> lang s}"
| "lang (Alt r s) = lang r \<union> lang s"
| "lang (Star r) = star (lang r)"
| "lang (Plus r) = {u @ v | u v. u \<in> lang r \<and> v \<in> star (lang r)}"

text \<open>
  The shape \<open>local@domain.tld\<close> in words: three non-empty runs of characters that are
  neither whitespace nor \<open>@\<close>, the first two separated by \<open>@\<close>, the last two by a dot.
\<close>

definition plain :: "code_unit \<Rightarrow> bool" where
  "plain x \<longleftrightarrow> \<not> is_space x \<and> x \<noteq> 0x40"

definition email_shape :: "jsstring \<Rightarrow> bool" where
  "email_shape s \<longleftrightarrow>
     (\<exists>a b c. s = a @ [0x40] @ b @ [0x2E] @ c \<and> a \<noteq> [] \<and> b \<noteq> [] \<and> c \<noteq> [] \<and>
        (\<forall>x \<in> set (a @ b @ c). plain x))"

section \<open>The endpoint \<open>POST /api/contact\<close>\<close>

text \<open>\<open>/^[^\s@]+@[^\s@]+\.[^\s@]+$/\<close>, the anchors being those of \<open>anchored_test\<close>.\<close>

definition emailRegex :: regex where
  "emailRegex =
     Concat (Plus (NotOneOf [ClassSpace, ClassChar 0x40]))
       (Concat (Char 0x40)
         (Concat (Plus (NotOneOf [ClassSpace, ClassChar 0x40]))
           (Concat (Char 0x2E)
             (Plus (NotOneOf [ClassSpace, ClassChar 0x40])))))"

text \<open>\<open>emailRegex.test(v)\<close>: the argument is converted to a string first.\<close>

definition emailRegex_test :: "jsval \<Rightarrow> exn + bool" where
  "emailRegex_test v =
     (case ToString v of Inl e \<Rightarrow> Inl e | Inr s \<Rightarrow> Inr (anchored_test emailRegex s))"

text \<open>
  A request is given by what \<open>await request.json()\<close> does with it: it throws, or it
  yields the parsed body.
\<close>

record request =
  json :: "exn + jsval"

text \<open>
  \<open>new Response(JSON.stringify(v), {status, headers})\<close>: \<open>body\<close> holds the value \<open>v\<close>
  that is serialised.
\<close>

record response =
  body :: jsval
  status :: nat
  headers :: "(jsstring \<times> jsstring) list"

datatype console_line =
    ConsoleLog jsstring jsval
  | ConsoleError jsstring exn

text \<open>
  What the handler touches outside its arguments: the clock, read as the text of
  \<open>new Date().toISOString()\<close>, and the process console it appends to.
\<close>

record world =
  clock :: jsstring
  console :: "console_line list"

text \<open>The body of the \<open>try\<close> block; \<open>Inl\<close> is an exception leaving it.\<close>

definition POST_try :: "request \<Rightarrow> world \<Rightarrow> exn + (response \<times> world)" where
  "POST_try req w =
     (case json req of
        Inl e \<Rightarrow> Inl e
      | Inr data \<Rightarrow>
          (case Get data (lit ''email'') of
             Inl e \<Rightarrow> Inl e
           | Inr email \<Rightarrow>
               if \<not> ToBoolean email then
                 Inr (\<lparr>body = Obj [(lit ''error'', Str (lit ''Email address is required''))],
                       status = 400,
                       headers = [(lit ''Content-Type'', lit ''application/json'')]\<rparr>, w)
               else
                 (case emailRegex_test email of
                    Inl e \<Rightarrow> Inl e
                  | Inr matched \<Rightarrow>
                      if \<not> matched then
                        Inr (\<lparr>body = Obj [(lit ''error'',
                                             Str (lit ''Please enter a valid email address''))],
                              status = 400,
                              headers = [(lit ''Content-Type'', lit ''application/json'')]\<rparr>, w)
                      else
                        (case Get data (lit ''email'') of
                           Inl e \<Rightarrow> Inl e
                         | Inr logged_email \<Rightarrow>
                             (case Get data (lit ''message'') of
                                Inl e \<Rightarrow> Inl e
                              | Inr msg \<Rightarrow>
                                  Inr (\<lparr>body = Obj [(lit ''success'', Bool True),
                                                     (lit ''message'', Str (lit
                                    ''Thank you for your interest! We will get back to you soon.''))],
                                        status = 200,
                                        headers = [(lit ''Content-Type'', lit ''application/json'')]\<rparr>,
                                       w\<lparr>console := console w @
                                         [ConsoleLog (lit ''Contact form submission:'')
                                            (Obj [(lit ''email'', logged_email),
                                                  (lit ''message'',
                                                     js_or msg (Str (lit ''No message provided''))),
                                                  (lit ''timestamp'', Str (clock w))])]\<rparr>))))))"

text \<open>The handler: the \<open>try\<close> block, and the \<open>catch\<close> that logs and answers 500.\<close>

definition POST :: "request \<Rightarrow> world \<Rightarrow> response \<times> world" where
  "POST req w =
     (case POST_try req w of
        Inr result \<Rightarrow> result
      | Inl e \<Rightarrow>
          (\<lparr>body = Obj [(lit ''error'', Str (lit ''Internal server error''))],
            status = 500,
            headers = [(lit ''Content-Type'', lit ''application/json'')]\<rparr>,
           w\<lparr>console := console w @ [ConsoleError (lit ''Contact form error:'') e]\<rparr>))"

section \<open>The form component \<open>ContactForm\<close>\<close>

record FormData =
  email :: jsstring
  message :: jsstring

text \<open>The four \<open>useState\<close> cells of the component.\<close>

record ContactForm =
  formData :: FormData
  isSubmitting :: bool
  isSubmitted :: bool
  error :: jsstring

definition initial :: ContactForm where
  "initial = \<lparr>formData = \<lparr>email = [], message = []\<rparr>,
              isSubmitting = False, isSubmitted = False, error = []\<rparr>"

text \<open>The two inputs are named \<open>email\<close> and \<open>message\<close>; \<open>handleChange\<close> writes the one
  the event comes from.\<close>

datatype field = EmailField | MessageField

fun handleChange :: "field \<Rightarrow> jsstring \<Rightarrow> ContactForm \<Rightarrow> ContactForm" where
  "handleChange EmailField v s = s\<lparr>formData := (formData s)\<lparr>email := v\<rparr>\<rparr>"
| "handleChange MessageField v s = s\<lparr>formData := (formData s)\<lparr>message := v\<rparr>\<rparr>"

text \<open>
  \<open>handleSubmit\<close> runs in two parts around \<open>await fetch(...)\<close>. The first sets the
  flags and sends \<open>JSON.stringify(formData)\<close>; the second runs when the fetch settles.
\<close>

definition handleSubmit_begin :: "ContactForm \<Rightarrow> ContactForm" where
  "handleSubmit_begin s = s\<lparr>isSubmitting := True, error := []\<rparr>"

definition handleSubmit_payload :: "ContactForm \<Rightarrow> jsval" where
  "handleSubmit_payload s =
     Obj [(lit ''email'', Str (email (formData s))),
          (lit ''message'', Str (message (formData s)))]"

datatype fetch_result = Responded bool | NetworkFailure

fun handleSubmit_settle :: "fetch_result \<Rightarrow> ContactForm \<Rightarrow> ContactForm" where
  "handleSubmit_settle (Responded ok) s =
     (if ok then s\<lparr>isSubmitted := True, isSubmitting := False\<rparr>
      else s\<lparr>error := lit ''Something went wrong. Please try again or email us directly.'',
             isSubmitting := False\<rparr>)"
| "handleSubmit_settle NetworkFailure s =
     s\<lparr>error := lit ''Something went wrong. Please try again or email us directly.'',
       isSubmitting := False\<rparr>"

text \<open>\<open>response.ok\<close> of the fetch: a status from 200 to 299.\<close>

definition response_ok :: "response \<Rightarrow> bool" where
  "response_ok r \<longleftrightarrow> 200 \<le> status r \<and> status r \<le> 299"

text \<open>The \<open>onClick\<close> of "Send Another Message".\<close>

definition reset :: "ContactForm \<Rightarrow> ContactForm" where
  "reset s = s\<lparr>isSubmitted := False, formData := \<lparr>email = [], message = []\<rparr>\<rparr>"

text \<open>
  What can happen to the component. The rendered view decides which events exist: with
  \<open>isSubmitted\<close> only the thank-you panel and its reset button are shown; otherwise the
  form is shown, its submit button disabled while \<open>isSubmitting\<close>. A fetch settles only
  while one is in flight.
\<close>

datatype event =
    Change field jsstring
  | Submit
  | Settle fetch_result
  | Reset

fun enabled :: "ContactForm \<Rightarrow> event \<Rightarrow> bool" where
  "enabled s (Change f v) = (\<not> isSubmitted s)"
| "enabled s Submit = (\<not> isSubmitted s \<and> \<not> isSubmitting s)"
| "enabled s (Settle r) = isSubmitting s"
| "enabled s Reset = isSubmitted s"

fun apply_event :: "event \<Rightarrow> ContactForm \<Rightarrow> ContactForm" where
  "apply_event (Change f v) s = handleChange f v s"
| "apply_event Submit s = handleSubmit_begin s"
| "apply_event (Settle r) s = handleSubmit_settle r s"
| "apply_event Reset s = reset s"

definition react :: "ContactForm \<Rightarrow> event \<Rightarrow> ContactForm option" where
  "react s ev = (if enabled s ev then Some (apply_event ev s) else None)"

fun run :: "ContactForm \<Rightarrow> event list \<Rightarrow> ContactForm option" where
  "run s [] = Some s"
| "run s (ev # evs) = (case react s ev of None \<Rightarrow> None | Some s' \<Rightarrow> run s' evs)"

text \<open>The states the specification names, read off what the component renders.\<close>

datatype phase = Idle | Submitting | Submitted | Failed

definition phase :: "ContactForm \<Rightarrow> phase" where
  "phase s =
     (if isSubmitted s then Submitted
      else if isSubmitting s then Submitting
      else if error s \<noteq> [] then Failed
      else Idle)"

text \<open>What holds of the flags in every state the component gets into.\<close>

definition settled :: "ContactForm \<Rightarrow> bool" where
  "settled s \<longleftrightarrow>
     (isSubmitting s \<longrightarrow> \<not> isSubmitted s \<and> error s = []) \<and>
     (isSubmitted s \<longrightarrow> error s = [])"

section \<open>The matcher decides the pattern\<close>

lemma star_Cons_iff:
  "c # w \<in> star L \<longleftrightarrow> (\<exists>u v. w = u @ v \<and> c # u \<in> L \<and> v \<in> star L)"
proof
  assume "c # w \<in> star L"
  then show "\<exists>u v. w = u @ v \<and> c # u \<in> L \<and> v \<in> star L"
  proof (induction "c # w" rule: star.induct)
    case (star_app u v)
    show ?case
    proof (cases u)
      case Nil
      with star_app show ?thesis by simp
    next
      case (Cons d u')
      with star_app show ?thesis by auto
    qed
  qed
next
  assume "\<exists>u v. w = u @ v \<and> c # u \<in> L \<and> v \<in> star L"
  then obtain u v where "w = u @ v" "c # u \<in> L" "v \<in> star L" by blast
  then have "(c # u) @ v \<in> star L" by (intro star.star_app)
  with \<open>w = u @ v\<close> show "c # w \<in> star L" by simp
qed

lemma nullable_lang: "nullable r \<longleftrightarrow> [] \<in> lang r"
  by (induction r) (auto intro: star.star_nil)

lemma deriv_lang: "w \<in> lang (deriv c r) \<longleftrightarrow> c # w \<in> lang r"
proof (induction r arbitrary: w)
  case (NotOneOf as)
  show ?case by (auto simp: list_ex_iff)
next
  case (Concat r s)
  show ?case
    by (auto simp: Concat nullable_lang Cons_eq_append_conv)
next
  case (Star r)
  show ?case by (auto simp: Star star_Cons_iff)
next
  case (Plus r)
  show ?case
    by (auto simp: Plus star_Cons_iff Cons_eq_append_conv)
qed auto

lemma anchored_test_lang: "anchored_test r w \<longleftrightarrow> w \<in> lang r"
  by (induction w arbitrary: r) (simp_all add: nullable_lang deriv_lang)


lemma star_plain: "w \<in> star {[x] | x. plain x} \<longleftrightarrow> (\<forall>x \<in> set w. plain x)"
proof (induction w)
  case Nil
  show ?case by (simp add: star.star_nil)
next
  case (Cons y w)
  show ?case by (auto simp: star_Cons_iff Cons)
qed

lemma lang_plain_plus:
  "lang (Plus (NotOneOf [ClassSpace, ClassChar 0x40])) =
     {w. w \<noteq> [] \<and> (\<forall>x \<in> set w. plain x)}" (is "?L = ?R")
proof -
  have atoms: "lang (NotOneOf [ClassSpace, ClassChar 0x40]) = {[x] | x. plain x}"
    by (auto simp: plain_def)
  show ?thesis
  proof (rule set_eqI)
    fix w
    show "w \<in> ?L \<longleftrightarrow> w \<in> ?R"
    proof
      assume "w \<in> ?L"
      then obtain x v where "w = [x] @ v" "plain x" "v \<in> star {[x] | x. plain x}"
        unfolding lang.simps(8) atoms by blast
      then show "w \<in> ?R" by (simp add: star_plain)
    next
      assume "w \<in> ?R"
      then obtain y ys where w: "w = y # ys" and p: "plain y" "\<forall>x \<in> set ys. plain x"
        by (cases w) auto
      have "[y] \<in> {[x] | x. plain x}" using p by blast
      moreover have "ys \<in> star {[x] | x. plain x}" using p by (simp add: star_plain)
      ultimately have "[y] @ ys \<in> ?L" unfolding lang.simps(8) atoms by blast
      with w show "w \<in> ?L" by simp
    qed
  qed
qed

lemma emailRegex_lang:
  "s \<in> lang emailRegex \<longleftrightarrow>
     (\<exists>a b c. s = a @ [0x40] @ b @ [0x2E] @ c \<and>
        a \<in> lang (Plus (NotOneOf [ClassSpace, ClassChar 0x40])) \<and>
        b \<in> lang (Plus (NotOneOf [ClassSpace, ClassChar 0x40])) \<and>
        c \<in> lang (Plus (NotOneOf [ClassSpace, ClassChar 0x40])))"
  unfolding emailRegex_def lang.simps(5) lang.simps(3) by blast

lemma emailRegex_shape: "anchored_test emailRegex s \<longleftrightarrow> email_shape s"
proof -
  have "s \<in> lang emailRegex \<longleftrightarrow>
      (\<exists>a b c. s = a @ [0x40] @ b @ [0x2E] @ c \<and>
         (a \<noteq> [] \<and> (\<forall>x \<in> set a. plain x)) \<and>
         (b \<noteq> [] \<and> (\<forall>x \<in> set b. plain x)) \<and>
         (c \<noteq> [] \<and> (\<forall>x \<in> set c. plain x)))"
    unfolding emailRegex_lang lang_plain_plus by simp
  also have "\<dots> \<longleftrightarrow> email_shape s"
    unfolding email_shape_def plain_def by (simp add: ball_Un conj_ac)
  finally show ?thesis by (simp add: anchored_test_lang)
qed

section \<open>The branches of the handler\<close>

lemma POST_rejected:
  "json req = Inl e \<Longrightarrow>
   POST req w =
     (\<lparr>body = Obj [(lit ''error'', Str (lit ''Internal server error''))], status = 500,
       headers = [(lit ''Content-Type'', lit ''application/json'')]\<rparr>,
      w\<lparr>console := console w @ [ConsoleError (lit ''Contact form error:'') e]\<rparr>)"
  by (simp add: POST_def POST_try_def)

lemma POST_try_falsy:
  "json req = Inr data \<Longrightarrow> Get data (lit ''email'') = Inr v \<Longrightarrow> \<not> ToBoolean v \<Longrightarrow>
   POST_try req w =
     Inr (\<lparr>body = Obj [(lit ''error'', Str (lit ''Email address is required''))], status = 400,
       headers = [(lit ''Content-Type'', lit ''application/json'')]\<rparr>, w)"
  by (simp add: POST_try_def)

lemma POST_try_mismatch:
  "json req = Inr data \<Longrightarrow> Get data (lit ''email'') = Inr v \<Longrightarrow> ToBoolean v \<Longrightarrow>
   emailRegex_test v = Inr False \<Longrightarrow>
   POST_try req w =
     Inr (\<lparr>body = Obj [(lit ''error'', Str (lit ''Please enter a valid email address''))],
       status = 400,
       headers = [(lit ''Content-Type'', lit ''application/json'')]\<rparr>, w)"
  by (simp add: POST_try_def)

lemma Get_message_defined:
  "Get data k = Inr v \<Longrightarrow> \<exists>m. Get data k' = Inr m"
  by (cases data) auto

lemma Get_undefined_iff:
  "Get data name = Inr Undefined \<longleftrightarrow>
     data \<noteq> Undefined \<and> data \<noteq> Null \<and>
     (\<forall>ps. data = Obj ps \<longrightarrow> map_of ps name = None \<or> map_of ps name = Some Undefined)"
  by (cases data) (auto split: option.splits)

lemma POST_try_match:
  "json req = Inr data \<Longrightarrow> Get data (lit ''email'') = Inr v \<Longrightarrow> ToBoolean v \<Longrightarrow>
   emailRegex_test v = Inr True \<Longrightarrow> Get data (lit ''message'') = Inr m \<Longrightarrow>
   POST_try req w =
     Inr (\<lparr>body = Obj [(lit ''success'', Bool True),
                       (lit ''message'',
                        Str (lit ''Thank you for your interest! We will get back to you soon.''))],
           status = 200,
           headers = [(lit ''Content-Type'', lit ''application/json'')]\<rparr>,
          w\<lparr>console := console w @
            [ConsoleLog (lit ''Contact form submission:'')
               (Obj [(lit ''email'', v),
                     (lit ''message'', js_or m (Str (lit ''No message provided''))),
                     (lit ''timestamp'', Str (clock w))])]\<rparr>)"
  by (simp add: POST_try_def)

lemma POST_try_raises:
  "POST_try req w = Inl e \<longleftrightarrow>
     json req = Inl e \<or>
     (\<exists>data. json req = Inr data \<and>
        (Get data (lit ''email'') = Inl e \<or>
         (\<exists>v. Get data (lit ''email'') = Inr v \<and> ToBoolean v \<and> emailRegex_test v = Inl e)))"
proof (cases "json req")
  case (Inl e')
  then show ?thesis by (simp add: POST_try_def)
next
  case (Inr data)
  show ?thesis
  proof (cases "Get data (lit ''email'')")
    case (Inl e')
    with Inr show ?thesis by (simp add: POST_try_def)
  next
    case got: (Inr v)
    obtain m where m: "Get data (lit ''message'') = Inr m"
      using Get_message_defined [OF got] by blast
    show ?thesis
    proof (cases "ToBoolean v")
      case False
      with Inr got show ?thesis by (simp add: POST_try_def)
    next
      case True
      with Inr got m show ?thesis
        by (cases "emailRegex_test v") (simp_all add: POST_try_def)
    qed
  qed
qed


lemma emailRegex_test_Str: "emailRegex_test (Str s) = Inr (anchored_test emailRegex s)"
  by (simp add: emailRegex_test_def)

lemma POST_ignores_world: "fst (POST req w) = fst (POST req w')"
proof (cases "json req")
  case (Inl e)
  then show ?thesis by (simp add: POST_rejected)
next
  case (Inr data)
  show ?thesis
  proof (cases "Get data (lit ''email'')")
    case (Inl e)
    with Inr show ?thesis by (simp add: POST_def POST_try_def)
  next
    case got: (Inr v)
    obtain m where m: "Get data (lit ''message'') = Inr m"
      using Get_message_defined [OF got] by blast
    show ?thesis
    proof (cases "ToBoolean v")
      case False
      with Inr got show ?thesis by (simp add: POST_def POST_try_falsy)
    next
      case True
      show ?thesis
      proof (cases "emailRegex_test v")
        case (Inl e)
        with Inr got True show ?thesis by (simp add: POST_def POST_try_def)
      next
        case (Inr matched)
        with \<open>json req = Inr data\<close> got True m show ?thesis
          by (cases matched) (simp_all add: POST_def POST_try_mismatch POST_try_match)
      qed
    qed
  qed
qed

text \<open>
  C1. A request body whose \<open>email\<close> is a string that the pattern does not match (such as
  \<open>notanemail\<close>, \<open>a@b\<close> or the empty string) is answered with status 400 and a JSON
  object holding the single key \<open>error\<close>.
\<close>

theorem malformed_email_rejected:
  assumes "json req = Inr data"
    and "Get data (lit ''email'') = Inr (Str s)"
    and "\<not> anchored_test emailRegex s"
  shows "fst (POST req w) =
    \<lparr>body = Obj [(lit ''error'',
        Str (if s = [] then lit ''Email address is required''
             else lit ''Please enter a valid email address''))],
     status = 400,
     headers = [(lit ''Content-Type'', lit ''application/json'')]\<rparr>"
proof (cases "s = []")
  case True
  with assms(1,2) show ?thesis by (simp add: POST_def POST_try_falsy)
next
  case False
  with assms show ?thesis
    by (simp add: POST_def POST_try_mismatch emailRegex_test_Str)
qed

theorem malformed_email_rejected_witness:
  "\<not> anchored_test emailRegex (lit ''notanemail'') \<and>
   status (fst (POST \<lparr>json = Inr (Obj [(lit ''email'', Str (lit ''notanemail''))])\<rparr>
                     \<lparr>clock = [], console = []\<rparr>)) = 400 \<and>
   \<not> anchored_test emailRegex (lit ''a@b'') \<and>
   status (fst (POST \<lparr>json = Inr (Obj [(lit ''email'', Str (lit ''a@b''))])\<rparr>
                     \<lparr>clock = [], console = []\<rparr>)) = 400 \<and>
   \<not> anchored_test emailRegex [] \<and>
   body (fst (POST \<lparr>json = Inr (Obj [(lit ''email'', Str [])])\<rparr>
                   \<lparr>clock = [], console = []\<rparr>)) =
     Obj [(lit ''error'', Str (lit ''Email address is required''))]"
proof -
  have n1: "\<not> anchored_test emailRegex (lit ''notanemail'')"
    by (simp add: emailRegex_def lit_def is_space_def)
  have n2: "\<not> anchored_test emailRegex (lit ''a@b'')"
    by (simp add: emailRegex_def lit_def is_space_def)
  have n3: "\<not> anchored_test emailRegex []"
    by (simp add: emailRegex_def)
  have g: "\<And>s. Get (Obj [(lit ''email'', Str s)]) (lit ''email'') = Inr (Str s)"
    by simp
  show ?thesis
    using n1 n2 n3
      malformed_email_rejected [OF _ g n1, of "\<lparr>json = Inr (Obj [(lit ''email'', Str (lit ''notanemail''))])\<rparr>" "\<lparr>clock = [], console = []\<rparr>"]
      malformed_email_rejected [OF _ g n2, of "\<lparr>json = Inr (Obj [(lit ''email'', Str (lit ''a@b''))])\<rparr>" "\<lparr>clock = [], console = []\<rparr>"]
      malformed_email_rejected [OF _ g n3, of "\<lparr>json = Inr (Obj [(lit ''email'', Str [])])\<rparr>" "\<lparr>clock = [], console = []\<rparr>"]
    by simp
qed

text \<open>
  C2. A request body whose \<open>email\<close> is a string that the pattern matches is answered,
  with or without a message, with status 200 and the JSON object of \<open>success: true\<close>
  and the acknowledgement message.
\<close>

theorem matching_email_accepted:
  assumes "json req = Inr data"
    and "Get data (lit ''email'') = Inr (Str s)"
    and "anchored_test emailRegex s"
  shows "fst (POST req w) =
    \<lparr>body = Obj [(lit ''success'', Bool True),
                 (lit ''message'',
                  Str (lit ''Thank you for your interest! We will get back to you soon.''))],
     status = 200,
     headers = [(lit ''Content-Type'', lit ''application/json'')]\<rparr>"
proof -
  obtain m where m: "Get data (lit ''message'') = Inr m"
    using Get_message_defined [OF assms(2)] by blast
  from assms(3) have "s \<noteq> []" by (auto simp: emailRegex_def)
  with assms m show ?thesis
    by (simp add: POST_def POST_try_match emailRegex_test_Str)
qed

theorem matching_email_accepted_witness:
  "anchored_test emailRegex (lit ''test@example.com'') \<and>
   fst (POST \<lparr>json = Inr (Obj [(lit ''email'', Str (lit ''test@example.com''))])\<rparr>
             \<lparr>clock = [], console = []\<rparr>) =
    \<lparr>body = Obj [(lit ''success'', Bool True),
                 (lit ''message'',
                  Str (lit ''Thank you for your interest! We will get back to you soon.''))],
     status = 200,
     headers = [(lit ''Content-Type'', lit ''application/json'')]\<rparr>"
proof -
  have ok: "anchored_test emailRegex (lit ''test@example.com'')"
    by (simp add: emailRegex_def lit_def is_space_def)
  have g: "Get (Obj [(lit ''email'', Str (lit ''test@example.com''))]) (lit ''email'') =
      Inr (Str (lit ''test@example.com''))"
    by simp
  show ?thesis
    using ok matching_email_accepted [OF _ g ok, of "\<lparr>json = Inr (Obj [(lit ''email'', Str (lit ''test@example.com''))])\<rparr>" "\<lparr>clock = [], console = []\<rparr>"]
    by simp
qed

text \<open>
  C3 (as amended). When the body was parsed and \<open>data.email\<close> evaluates to \<open>undefined\<close>,
  which is so for an object without an \<open>email\<close> property and for an array, a string, a
  number and a boolean, the answer is status 400 with the body
  \<open>{"error": "Email address is required"}\<close>.
\<close>

theorem absent_email_required:
  assumes "json req = Inr data"
    and "Get data (lit ''email'') = Inr Undefined"
  shows "fst (POST req w) =
    \<lparr>body = Obj [(lit ''error'', Str (lit ''Email address is required''))],
     status = 400,
     headers = [(lit ''Content-Type'', lit ''application/json'')]\<rparr>"
  using assms by (simp add: POST_def POST_try_falsy)

text \<open>An object that carries a message only.\<close>

theorem absent_email_required_witness:
  "Get (Obj [(lit ''message'', Str (lit ''Hello''))]) (lit ''email'') = Inr Undefined \<and>
   fst (POST \<lparr>json = Inr (Obj [(lit ''message'', Str (lit ''Hello''))])\<rparr>
             \<lparr>clock = [], console = []\<rparr>) =
    \<lparr>body = Obj [(lit ''error'', Str (lit ''Email address is required''))],
     status = 400,
     headers = [(lit ''Content-Type'', lit ''application/json'')]\<rparr>"
proof -
  have g: "Get (Obj [(lit ''message'', Str (lit ''Hello''))]) (lit ''email'') = Inr Undefined"
    by (simp add: lit_def)
  show ?thesis
    using g absent_email_required [OF _ g, of "\<lparr>json = Inr (Obj [(lit ''message'', Str (lit ''Hello''))])\<rparr>" "\<lparr>clock = [], console = []\<rparr>"]
    by simp
qed

text \<open>
  The body \<open>null\<close> has no \<open>email\<close> either, but reading a property of \<open>null\<close> throws:
  the answer is 500, not 400.
\<close>

theorem null_body_counterexample:
  "status (fst (POST \<lparr>json = Inr Null\<rparr> \<lparr>clock = [], console = []\<rparr>)) = 500"
  by (simp add: POST_def POST_try_def)

text \<open>
  C4. Whenever an exception leaves the \<open>try\<close> block (the body does not parse, for one),
  the handler catches it, logs it, and answers with status 500 and the body
  \<open>{"error": "Internal server error"}\<close>; \<open>POST\<close> returns a response in every case and
  nothing is thrown out of it.
\<close>

theorem exception_answered_500:
  assumes "POST_try req w = Inl e"
  shows "POST req w =
    (\<lparr>body = Obj [(lit ''error'', Str (lit ''Internal server error''))],
      status = 500,
      headers = [(lit ''Content-Type'', lit ''application/json'')]\<rparr>,
     w\<lparr>console := console w @ [ConsoleError (lit ''Contact form error:'') e]\<rparr>)"
  using assms by (simp add: POST_def)

text \<open>A body that \<open>request.json()\<close> rejects.\<close>

theorem exception_answered_500_witness:
  "POST_try \<lparr>json = Inl SyntaxError\<rparr> \<lparr>clock = [], console = []\<rparr> = Inl SyntaxError \<and>
   POST \<lparr>json = Inl SyntaxError\<rparr> \<lparr>clock = [], console = []\<rparr> =
    (\<lparr>body = Obj [(lit ''error'', Str (lit ''Internal server error''))],
      status = 500,
      headers = [(lit ''Content-Type'', lit ''application/json'')]\<rparr>,
     \<lparr>clock = [], console = [ConsoleError (lit ''Contact form error:'') SyntaxError]\<rparr>)"
proof -
  have t: "POST_try \<lparr>json = Inl SyntaxError\<rparr> \<lparr>clock = [], console = []\<rparr> = Inl SyntaxError"
    by (simp add: POST_try_def)
  show ?thesis using t exception_answered_500 [OF t] by simp
qed

text \<open>
  C9. Every response has the header \<open>Content-Type: application/json\<close> and is one of:
  status 200 with an object of the keys \<open>success\<close> and \<open>message\<close>, status 400 with an
  object of the single key \<open>error\<close>, status 500 with an object of the single key \<open>error\<close>.
\<close>

theorem response_shape:
  "headers (fst (POST req w)) = [(lit ''Content-Type'', lit ''application/json'')] \<and>
   (status (fst (POST req w)) = 200 \<and>
      (\<exists>m. body (fst (POST req w)) = Obj [(lit ''success'', Bool True), (lit ''message'', Str m)])
    \<or> status (fst (POST req w)) = 400 \<and>
      (\<exists>m. body (fst (POST req w)) = Obj [(lit ''error'', Str m)])
    \<or> status (fst (POST req w)) = 500 \<and>
      (\<exists>m. body (fst (POST req w)) = Obj [(lit ''error'', Str m)]))"
proof (cases "POST_try req w")
  case (Inl e)
  then show ?thesis by (simp add: POST_def)
next
  case (Inr res)
  then show ?thesis
    by (auto simp: POST_def POST_try_def split: sum.splits if_splits)
qed


text \<open>
  C7. A payload with a matching email, sent twice, is answered 200 both times with the
  same body, whatever the clock shows at the second request; and the first request
  changes the answer to no later request \<open>req'\<close>.
\<close>

theorem repeated_submission_independent:
  assumes "json req = Inr data"
    and "Get data (lit ''email'') = Inr (Str s)"
    and "anchored_test emailRegex s"
  shows "status (fst (POST req w)) = 200 \<and>
         status (fst (POST req ((snd (POST req w))\<lparr>clock := t\<rparr>))) = 200 \<and>
         body (fst (POST req ((snd (POST req w))\<lparr>clock := t\<rparr>))) = body (fst (POST req w)) \<and>
         fst (POST req' ((snd (POST req w))\<lparr>clock := t\<rparr>)) = fst (POST req' w)"
proof -
  obtain m where m: "Get data (lit ''message'') = Inr m"
    using Get_message_defined [OF assms(2)] by blast
  from assms(3) have "s \<noteq> []" by (auto simp: emailRegex_def)
  with assms m have "status (fst (POST req w)) = 200"
    by (simp add: POST_def POST_try_match emailRegex_test_Str)
  moreover have "fst (POST req ((snd (POST req w))\<lparr>clock := t\<rparr>)) = fst (POST req w)"
    by (rule POST_ignores_world)
  moreover have "fst (POST req' ((snd (POST req w))\<lparr>clock := t\<rparr>)) = fst (POST req' w)"
    by (rule POST_ignores_world)
  ultimately show ?thesis by simp
qed

text \<open>The same payload one second apart.\<close>

theorem repeated_submission_independent_witness:
  "anchored_test emailRegex (lit ''test@example.com'') \<and>
   status (fst (POST \<lparr>json = Inr (Obj [(lit ''email'', Str (lit ''test@example.com''))])\<rparr>
      \<lparr>clock = lit ''2024-03-15T10:00:00.000Z'', console = []\<rparr>)) = 200 \<and>
   status (fst (POST \<lparr>json = Inr (Obj [(lit ''email'', Str (lit ''test@example.com''))])\<rparr>
      ((snd (POST \<lparr>json = Inr (Obj [(lit ''email'', Str (lit ''test@example.com''))])\<rparr>
         \<lparr>clock = lit ''2024-03-15T10:00:00.000Z'', console = []\<rparr>))
       \<lparr>clock := lit ''2024-03-15T10:00:01.000Z''\<rparr>))) = 200"
proof -
  have ok: "anchored_test emailRegex (lit ''test@example.com'')"
    by (simp add: emailRegex_def lit_def is_space_def)
  have g: "Get (Obj [(lit ''email'', Str (lit ''test@example.com''))]) (lit ''email'') =
      Inr (Str (lit ''test@example.com''))"
    by simp
  show ?thesis
    using ok repeated_submission_independent [OF _ g ok,
        of "\<lparr>json = Inr (Obj [(lit ''email'', Str (lit ''test@example.com''))])\<rparr>"
           "\<lparr>clock = lit ''2024-03-15T10:00:00.000Z'', console = []\<rparr>"
           "lit ''2024-03-15T10:00:01.000Z''"]
    by simp
qed

text \<open>
  C8 (as amended). With a matching email the answer is 200, and two bodies with that
  email get the same response whatever their \<open>message\<close> fields are, present or not. A
  message string of any length and content reaches the log line as it was sent, with
  one exception: the empty string is logged as \<open>No message provided\<close>.
\<close>

theorem message_does_not_influence:
  assumes "json req = Inr data" and "json req' = Inr data'"
    and "Get data (lit ''email'') = Inr (Str s)"
    and "Get data' (lit ''email'') = Inr (Str s)"
    and "anchored_test emailRegex s"
  shows "status (fst (POST req w)) = 200 \<and>
         fst (POST req' w') = fst (POST req w) \<and>
         (Get data (lit ''message'') = Inr (Str m) \<longrightarrow>
            console (snd (POST req w)) = console w @
              [ConsoleLog (lit ''Contact form submission:'')
                 (Obj [(lit ''email'', Str s),
                       (lit ''message'',
                        Str (if m = [] then lit ''No message provided'' else m)),
                       (lit ''timestamp'', Str (clock w))])])"
proof -
  from assms(5) have ne: "s \<noteq> []" by (auto simp: emailRegex_def)
  obtain m1 where m1: "Get data (lit ''message'') = Inr m1"
    using Get_message_defined [OF assms(3)] by blast
  obtain m2 where m2: "Get data' (lit ''message'') = Inr m2"
    using Get_message_defined [OF assms(4)] by blast
  have r: "POST req w = (\<lparr>body = Obj [(lit ''success'', Bool True),
                       (lit ''message'',
                        Str (lit ''Thank you for your interest! We will get back to you soon.''))],
           status = 200,
           headers = [(lit ''Content-Type'', lit ''application/json'')]\<rparr>,
          w\<lparr>console := console w @
            [ConsoleLog (lit ''Contact form submission:'')
               (Obj [(lit ''email'', Str s),
                     (lit ''message'', js_or m1 (Str (lit ''No message provided''))),
                     (lit ''timestamp'', Str (clock w))])]\<rparr>)"
    using assms(1,3,5) ne m1 by (simp add: POST_def POST_try_match emailRegex_test_Str)
  have r': "fst (POST req' w') = \<lparr>body = Obj [(lit ''success'', Bool True),
                       (lit ''message'',
                        Str (lit ''Thank you for your interest! We will get back to you soon.''))],
           status = 200,
           headers = [(lit ''Content-Type'', lit ''application/json'')]\<rparr>"
    using assms(2,4,5) ne m2 by (simp add: POST_def POST_try_match emailRegex_test_Str)
  show ?thesis using r r' m1 by (auto simp: js_or_def)
qed

text \<open>The payload with the message \<open>Hello\<close> against the one without a message.\<close>

theorem message_does_not_influence_witness:
  "anchored_test emailRegex (lit ''test@example.com'') \<and>
   Get (Obj [(lit ''email'', Str (lit ''test@example.com'')),
             (lit ''message'', Str (lit ''Hello''))]) (lit ''message'') = Inr (Str (lit ''Hello'')) \<and>
   lit ''Hello'' \<noteq> [] \<and>
   fst (POST \<lparr>json = Inr (Obj [(lit ''email'', Str (lit ''test@example.com''))])\<rparr>
          \<lparr>clock = [], console = []\<rparr>) =
   fst (POST \<lparr>json = Inr (Obj [(lit ''email'', Str (lit ''test@example.com'')),
                                (lit ''message'', Str (lit ''Hello''))])\<rparr>
          \<lparr>clock = [], console = []\<rparr>) \<and>
   console (snd (POST \<lparr>json = Inr (Obj [(lit ''email'', Str (lit ''test@example.com'')),
                                (lit ''message'', Str (lit ''Hello''))])\<rparr>
          \<lparr>clock = [], console = []\<rparr>)) =
     [ConsoleLog (lit ''Contact form submission:'')
        (Obj [(lit ''email'', Str (lit ''test@example.com'')),
              (lit ''message'', Str (lit ''Hello'')),
              (lit ''timestamp'', Str [])])]"
proof -
  have ok: "anchored_test emailRegex (lit ''test@example.com'')"
    by (simp add: emailRegex_def lit_def is_space_def)
  have g: "Get (Obj [(lit ''email'', Str (lit ''test@example.com'')),
             (lit ''message'', Str (lit ''Hello''))]) (lit ''email'') =
      Inr (Str (lit ''test@example.com''))"
    by simp
  have g': "Get (Obj [(lit ''email'', Str (lit ''test@example.com''))]) (lit ''email'') =
      Inr (Str (lit ''test@example.com''))"
    by simp
  have gm: "Get (Obj [(lit ''email'', Str (lit ''test@example.com'')),
             (lit ''message'', Str (lit ''Hello''))]) (lit ''message'') = Inr (Str (lit ''Hello''))"
    by (simp add: lit_def)
  have ne: "lit ''Hello'' \<noteq> []" by (simp add: lit_def)
  show ?thesis
    using ok gm ne message_does_not_influence [OF _ _ g g' ok,
        of "\<lparr>json = Inr (Obj [(lit ''email'', Str (lit ''test@example.com'')),
                                (lit ''message'', Str (lit ''Hello''))])\<rparr>"
           "\<lparr>json = Inr (Obj [(lit ''email'', Str (lit ''test@example.com''))])\<rparr>"
           "\<lparr>clock = [], console = []\<rparr>" "\<lparr>clock = [], console = []\<rparr>" "lit ''Hello''"]
    by simp
qed

text \<open>
  The message \<open>""\<close> is a string, and it is not logged as it was sent: the log line
  carries \<open>No message provided\<close> in its place.
\<close>

theorem empty_message_counterexample:
  "console (snd (POST \<lparr>json = Inr (Obj [(lit ''email'', Str (lit ''test@example.com'')),
                                        (lit ''message'', Str [])])\<rparr>
                      \<lparr>clock = [], console = []\<rparr>)) =
     [ConsoleLog (lit ''Contact form submission:'')
        (Obj [(lit ''email'', Str (lit ''test@example.com'')),
              (lit ''message'', Str (lit ''No message provided'')),
              (lit ''timestamp'', Str [])])] \<and>
   lit ''No message provided'' \<noteq> []"
  by (simp add: POST_def POST_try_def emailRegex_test_def emailRegex_def js_or_def
      lit_def is_space_def)

lemma error_texts_differ:
  "lit ''Email address is required'' \<noteq> lit ''Please enter a valid email address''"
  "lit ''Internal server error'' \<noteq> lit ''Please enter a valid email address''"
  "lit ''success'' \<noteq> lit ''error''"
  by (simp_all add: lit_def)

text \<open>
  C10 (as amended). A falsy \<open>email\<close> (the empty string, \<open>null\<close>, zero, \<open>false\<close>, or none
  at all) takes the first branch: status 400 with the body
  \<open>{"error": "Email address is required"}\<close>. The body \<open>{"error": "Please enter a valid email address"}\<close> is returned
  exactly when \<open>email\<close> is truthy, converts to a string, and that string fails the
  pattern: for a non-empty string that fails it, and for a truthy value that is no
  string as well.
\<close>

theorem falsy_required_truthy_malformed:
  "(json req = Inr data \<and> Get data (lit ''email'') = Inr v \<and> \<not> ToBoolean v \<longrightarrow>
      fst (POST req w) =
        \<lparr>body = Obj [(lit ''error'', Str (lit ''Email address is required''))],
         status = 400,
         headers = [(lit ''Content-Type'', lit ''application/json'')]\<rparr>) \<and>
   (body (fst (POST req w)) =
        Obj [(lit ''error'', Str (lit ''Please enter a valid email address''))] \<longleftrightarrow>
      (\<exists>d x s. json req = Inr d \<and> Get d (lit ''email'') = Inr x \<and> ToBoolean x \<and>
         ToString x = Inr s \<and> \<not> anchored_test emailRegex s))"
proof (intro conjI impI)
  assume "json req = Inr data \<and> Get data (lit ''email'') = Inr v \<and> \<not> ToBoolean v"
  then show "fst (POST req w) =
        \<lparr>body = Obj [(lit ''error'', Str (lit ''Email address is required''))],
         status = 400,
         headers = [(lit ''Content-Type'', lit ''application/json'')]\<rparr>"
    by (simp add: POST_def POST_try_falsy)
next
  show "body (fst (POST req w)) =
        Obj [(lit ''error'', Str (lit ''Please enter a valid email address''))] \<longleftrightarrow>
      (\<exists>d x s. json req = Inr d \<and> Get d (lit ''email'') = Inr x \<and> ToBoolean x \<and>
         ToString x = Inr s \<and> \<not> anchored_test emailRegex s)"
    by (auto simp: POST_def POST_try_def emailRegex_test_def error_texts_differ
        split: sum.splits if_splits)
qed

text \<open>The four falsy values, and the number 5, which prints as \<open>5\<close>.\<close>

theorem falsy_required_truthy_malformed_witness:
  "\<not> ToBoolean (Str []) \<and> \<not> ToBoolean Null \<and> \<not> ToBoolean (Num (Decimal False 0 1)) \<and>
   \<not> ToBoolean (Bool False) \<and>
   body (fst (POST \<lparr>json = Inr (Obj [(lit ''email'', Str [])])\<rparr> \<lparr>clock = [], console = []\<rparr>)) =
     Obj [(lit ''error'', Str (lit ''Email address is required''))] \<and>
   body (fst (POST \<lparr>json = Inr (Obj [(lit ''email'', Null)])\<rparr> \<lparr>clock = [], console = []\<rparr>)) =
     Obj [(lit ''error'', Str (lit ''Email address is required''))] \<and>
   body (fst (POST \<lparr>json = Inr (Obj [(lit ''email'', Num (Decimal False 0 1))])\<rparr>
                   \<lparr>clock = [], console = []\<rparr>)) =
     Obj [(lit ''error'', Str (lit ''Email address is required''))] \<and>
   body (fst (POST \<lparr>json = Inr (Obj [(lit ''email'', Bool False)])\<rparr>
                   \<lparr>clock = [], console = []\<rparr>)) =
     Obj [(lit ''error'', Str (lit ''Email address is required''))] \<and>
   ToBoolean (Num (Decimal False 5 1)) \<and>
   ToString (Num (Decimal False 5 1)) = Inr (lit ''5'') \<and>
   \<not> anchored_test emailRegex (lit ''5'') \<and>
   body (fst (POST \<lparr>json = Inr (Obj [(lit ''email'', Num (Decimal False 5 1))])\<rparr>
                   \<lparr>clock = [], console = []\<rparr>)) =
     Obj [(lit ''error'', Str (lit ''Please enter a valid email address''))]"
proof -
  have g: "\<And>v. Get (Obj [(lit ''email'', v)]) (lit ''email'') = Inr v"
    by simp
  have five: "ToString (Num (Decimal False 5 1)) = Inr (lit ''5'')"
    by (simp add: digits.simps zeros_def lit_def)
  have no: "\<not> anchored_test emailRegex (lit ''5'')"
    by (simp add: emailRegex_def lit_def is_space_def)
  have ex: "\<exists>d x s. json \<lparr>json = Inr (Obj [(lit ''email'', Num (Decimal False 5 1))])\<rparr> = Inr d \<and>
      Get d (lit ''email'') = Inr x \<and> ToBoolean x \<and> ToString x = Inr s \<and>
      \<not> anchored_test emailRegex s"
    using g five no by (intro exI [of _ "Obj [(lit ''email'', Num (Decimal False 5 1))]"]
        exI [of _ "Num (Decimal False 5 1)"] exI [of _ "lit ''5''"]) simp
  show ?thesis
    using g five no ex
      falsy_required_truthy_malformed [of "\<lparr>json = Inr (Obj [(lit ''email'', Str [])])\<rparr>"
        "Obj [(lit ''email'', Str [])]" "Str []" "\<lparr>clock = [], console = []\<rparr>"]
      falsy_required_truthy_malformed [of "\<lparr>json = Inr (Obj [(lit ''email'', Null)])\<rparr>"
        "Obj [(lit ''email'', Null)]" "Null" "\<lparr>clock = [], console = []\<rparr>"]
      falsy_required_truthy_malformed [of
        "\<lparr>json = Inr (Obj [(lit ''email'', Num (Decimal False 0 1))])\<rparr>"
        "Obj [(lit ''email'', Num (Decimal False 0 1))]" "Num (Decimal False 0 1)"
        "\<lparr>clock = [], console = []\<rparr>"]
      falsy_required_truthy_malformed [of "\<lparr>json = Inr (Obj [(lit ''email'', Bool False)])\<rparr>"
        "Obj [(lit ''email'', Bool False)]" "Bool False" "\<lparr>clock = [], console = []\<rparr>"]
      falsy_required_truthy_malformed [of
        "\<lparr>json = Inr (Obj [(lit ''email'', Num (Decimal False 5 1))])\<rparr>" _ _
        "\<lparr>clock = [], console = []\<rparr>"]
    by simp
qed

text \<open>
  The email \<open>true\<close> is no string, yet it is answered with the body of the pattern
  branch.
\<close>

theorem truthy_nonstring_counterexample:
  "body (fst (POST \<lparr>json = Inr (Obj [(lit ''email'', Bool True)])\<rparr>
                   \<lparr>clock = [], console = []\<rparr>)) =
     Obj [(lit ''error'', Str (lit ''Please enter a valid email address''))]"
  by (simp add: POST_def POST_try_def emailRegex_test_def emailRegex_def lit_def is_space_def)

section \<open>The states of the form\<close>

lemma settled_initial: "settled initial"
  by (simp add: settled_def initial_def)

lemma failure_text_nonempty:
  "lit ''Something went wrong. Please try again or email us directly.'' \<noteq> []"
  by (simp add: lit_def)

lemma react_settled:
  assumes "settled s" and "react s ev = Some s'"
  shows "settled s'"
proof (cases ev)
  case (Change f v)
  with assms show ?thesis
    by (cases f) (auto simp: react_def settled_def split: if_splits)
next
  case Submit
  with assms show ?thesis
    by (auto simp: react_def settled_def handleSubmit_begin_def split: if_splits)
next
  case (Settle r)
  with assms show ?thesis
    by (cases r) (auto simp: react_def settled_def split: if_splits)
next
  case Reset
  with assms show ?thesis
    by (auto simp: react_def settled_def reset_def split: if_splits)
qed

lemma run_settled: "settled s \<Longrightarrow> run s evs = Some s' \<Longrightarrow> settled s'"
proof (induction evs arbitrary: s)
  case Nil
  then show ?case by simp
next
  case (Cons ev evs)
  then obtain s1 where s1: "react s ev = Some s1" "run s1 evs = Some s'"
    by (auto split: option.splits)
  from Cons.prems(1) s1(1) have "settled s1" by (rule react_settled)
  then show ?case using s1(2) by (rule Cons.IH)
qed

text \<open>
  The form sends its two fields as strings, so the fetch is ok exactly when the
  email field matches the pattern.
\<close>

lemma form_payload_ok:
  "response_ok (fst (POST \<lparr>json = Inr (handleSubmit_payload s)\<rparr> w)) \<longleftrightarrow>
     anchored_test emailRegex (email (formData s))"
proof -
  let ?req = "\<lparr>json = Inr (handleSubmit_payload s)\<rparr>"
  have j: "json ?req = Inr (handleSubmit_payload s)" by simp
  have g: "Get (handleSubmit_payload s) (lit ''email'') = Inr (Str (email (formData s)))"
    by (simp add: handleSubmit_payload_def)
  obtain m where m: "Get (handleSubmit_payload s) (lit ''message'') = Inr m"
    using Get_message_defined [OF g] by blast
  show ?thesis
  proof (cases "anchored_test emailRegex (email (formData s))")
    case True
    then have "email (formData s) \<noteq> []" by (auto simp: emailRegex_def)
    with True show ?thesis
      by (simp add: POST_def POST_try_match [OF j g _ _ m] emailRegex_test_Str response_ok_def)
  next
    case False
    show ?thesis
    proof (cases "email (formData s) = []")
      case True
      with False show ?thesis
        by (simp add: POST_def POST_try_falsy [OF j g] response_ok_def)
    next
      case nonempty: False
      with False show ?thesis
        by (simp add: POST_def POST_try_mismatch [OF j g] emailRegex_test_Str response_ok_def)
    qed
  qed
qed

text \<open>
  C5. In every state the component gets into: submitting is possible exactly from idle
  and from the error state and leads to submitting; a fetch settles exactly in
  submitting, an ok response leading to submitted, a response that is not ok or a
  network failure to the error state, where the fields are as they were and submitting
  is possible again; reset is possible exactly in submitted and leads to idle with
  both fields empty; editing a field changes no state.
\<close>

theorem client_transitions:
  assumes "run initial evs = Some s"
  shows "(react s ev \<noteq> None \<longleftrightarrow>
           (case ev of
              Change f v \<Rightarrow> phase s \<noteq> Submitted
            | Submit \<Rightarrow> phase s = Idle \<or> phase s = Failed
            | Settle r \<Rightarrow> phase s = Submitting
            | Reset \<Rightarrow> phase s = Submitted)) \<and>
         (react s ev = Some s' \<longrightarrow>
           (case ev of
              Change f v \<Rightarrow> phase s' = phase s
            | Submit \<Rightarrow> phase s' = Submitting \<and> formData s' = formData s
            | Settle r \<Rightarrow>
                formData s' = formData s \<and>
                (if r = Responded True then phase s' = Submitted
                 else phase s' = Failed \<and> enabled s' Submit)
            | Reset \<Rightarrow> phase s' = Idle \<and> formData s' = \<lparr>email = [], message = []\<rparr>))"
proof -
  have inv: "settled s"
    using settled_initial assms by (rule run_settled)
  show ?thesis
  proof (cases ev)
    case (Change f v)
    with inv show ?thesis
      by (cases f) (auto simp: react_def settled_def phase_def split: if_splits)
  next
    case Submit
    with inv show ?thesis
      by (auto simp: react_def settled_def phase_def handleSubmit_begin_def split: if_splits)
  next
    case (Settle r)
    with inv show ?thesis
      by (cases r)
        (auto simp: react_def settled_def phase_def failure_text_nonempty split: if_splits)
  next
    case Reset
    with inv show ?thesis
      by (auto simp: react_def settled_def phase_def reset_def split: if_splits)
  qed
qed

text \<open>
  C6. From the state an ok response leaves (submitted, the fields as they were sent),
  the reset action gives the initial state: idle, with the email and message fields
  both the empty string.
\<close>

theorem reset_after_success:
  assumes "run initial evs = Some s"
    and "react s (Settle (Responded True)) = Some s'"
  shows "phase s' = Submitted \<and> formData s' = formData s \<and>
         react s' Reset = Some initial \<and>
         phase initial = Idle \<and>
         email (formData initial) = [] \<and> message (formData initial) = []"
proof -
  have inv: "settled s"
    using settled_initial assms(1) by (rule run_settled)
  from assms(2) have s': "s' = s\<lparr>isSubmitted := True, isSubmitting := False\<rparr>"
    and sub: "isSubmitting s"
    by (auto simp: react_def split: if_splits)
  from inv sub have e: "error s = []" by (simp add: settled_def)
  from s' e have "reset s' = initial"
    by (simp add: reset_def initial_def)
  with s' show ?thesis
    by (simp add: react_def phase_def initial_def)
qed


text \<open>An email is typed, the form is sent, and the network fails.\<close>

theorem client_transitions_witness:
  "run initial [Change EmailField (lit ''a@b.c''), Submit] =
     Some \<lparr>formData = \<lparr>email = lit ''a@b.c'', message = []\<rparr>,
           isSubmitting = True, isSubmitted = False, error = []\<rparr> \<and>
   react \<lparr>formData = \<lparr>email = lit ''a@b.c'', message = []\<rparr>,
          isSubmitting = True, isSubmitted = False, error = []\<rparr> (Settle NetworkFailure) =
     Some \<lparr>formData = \<lparr>email = lit ''a@b.c'', message = []\<rparr>,
           isSubmitting = False, isSubmitted = False,
           error = lit ''Something went wrong. Please try again or email us directly.''\<rparr> \<and>
   phase \<lparr>formData = \<lparr>email = lit ''a@b.c'', message = []\<rparr>,
          isSubmitting = False, isSubmitted = False,
          error = lit ''Something went wrong. Please try again or email us directly.''\<rparr> = Failed"
proof -
  have r: "run initial [Change EmailField (lit ''a@b.c''), Submit] =
     Some \<lparr>formData = \<lparr>email = lit ''a@b.c'', message = []\<rparr>,
           isSubmitting = True, isSubmitted = False, error = []\<rparr>"
    by (simp add: initial_def react_def handleSubmit_begin_def)
  have st: "react \<lparr>formData = \<lparr>email = lit ''a@b.c'', message = []\<rparr>,
          isSubmitting = True, isSubmitted = False, error = []\<rparr> (Settle NetworkFailure) =
     Some \<lparr>formData = \<lparr>email = lit ''a@b.c'', message = []\<rparr>,
           isSubmitting = False, isSubmitted = False,
           error = lit ''Something went wrong. Please try again or email us directly.''\<rparr>"
    by (simp add: react_def)
  show ?thesis
    using r st client_transitions [OF r, of "Settle NetworkFailure"
        "\<lparr>formData = \<lparr>email = lit ''a@b.c'', message = []\<rparr>,
           isSubmitting = False, isSubmitted = False,
           error = lit ''Something went wrong. Please try again or email us directly.''\<rparr>"]
    by simp
qed

text \<open>An email is typed, the form is sent, and the response is ok.\<close>

theorem reset_after_success_witness:
  "run initial [Change EmailField (lit ''a@b.c''), Submit] =
     Some \<lparr>formData = \<lparr>email = lit ''a@b.c'', message = []\<rparr>,
           isSubmitting = True, isSubmitted = False, error = []\<rparr> \<and>
   react \<lparr>formData = \<lparr>email = lit ''a@b.c'', message = []\<rparr>,
          isSubmitting = True, isSubmitted = False, error = []\<rparr> (Settle (Responded True)) =
     Some \<lparr>formData = \<lparr>email = lit ''a@b.c'', message = []\<rparr>,
           isSubmitting = False, isSubmitted = True, error = []\<rparr> \<and>
   react \<lparr>formData = \<lparr>email = lit ''a@b.c'', message = []\<rparr>,
          isSubmitting = False, isSubmitted = True, error = []\<rparr> Reset = Some initial"
proof -
  have r: "run initial [Change EmailField (lit ''a@b.c''), Submit] =
     Some \<lparr>formData = \<lparr>email = lit ''a@b.c'', message = []\<rparr>,
           isSubmitting = True, isSubmitted = False, error = []\<rparr>"
    by (simp add: initial_def react_def handleSubmit_begin_def)
  have st: "react \<lparr>formData = \<lparr>email = lit ''a@b.c'', message = []\<rparr>,
          isSubmitting = True, isSubmitted = False, error = []\<rparr> (Settle (Responded True)) =
     Some \<lparr>formData = \<lparr>email = lit ''a@b.c'', message = []\<rparr>,
           isSubmitting = False, isSubmitted = True, error = []\<rparr>"
    by (simp add: react_def)
  show ?thesis
    using r st reset_after_success [OF r st] by simp
qed

end
